theory Spec2Isabelle
  imports Main "HOL-Library.Multiset" "HOL-Library.Sublist"
begin

chapter \<open>Chapter ranges from PDF outlines: the core of \<^verbatim>\<open>pdf_to_text.py\<close>\<close>

text \<open>
  The development embeds the pure core of \<^verbatim>\<open>pdf_to_text.py\<close>: the Roman-numeral
  decoder and the chapter-title classifier, the outline walker with its visited set, the
  chapter selector, the range builder and the selection parser. Python integers are
  \<^typ>\<open>int\<close>, strings are \<^typ>\<open>string\<close>, a raised exception is the \<open>Inl\<close> branch of a
  sum, and the objects of the outline live in an explicit heap so that object identity
  (\<^verbatim>\<open>id(item)\<close>) and reference cycles can be expressed.
\<close>

section \<open>Data model\<close>

text \<open>
  The two dataclasses of the source. Both have a field \<^verbatim>\<open>title\<close>; the selector of
  \<open>ChapterRange\<close> is written \<open>ChapterRange.title\<close>, the plain name \<open>title\<close> belongs to
  \<open>OutlineEntry\<close>.
\<close>

record ChapterRange =
  title :: string
  start_page :: int
  end_page :: int

record OutlineEntry =
  title :: string
  page_index :: int
  depth :: int

section \<open>Range builder: \<^verbatim>\<open>build_chapter_ranges\<close>\<close>

text \<open>
  \<^verbatim>\<open>sorted(entries, key=...)\<close> is a stable sort, as \<^const>\<open>sort_key\<close> is. The loop
  over \<^verbatim>\<open>enumerate(entries)\<close> appends one range per index, so it is the map over
  the indices \<open>0 ..< len(entries)\<close>; \<^verbatim>\<open>entries[idx + 1]\<close> is read only under the
  guard \<^verbatim>\<open>idx + 1 < len(entries)\<close>, where the index is in range.
\<close>

definition build_chapter_ranges :: "OutlineEntry list \<Rightarrow> int \<Rightarrow> ChapterRange list" where
  "build_chapter_ranges entries total_pages =
     (if entries = [] then []
      else let entries = sort_key page_index entries in
        map (\<lambda>idx. let entry = entries ! idx;
                       start_index = page_index entry;
                       end_index = (if idx + 1 < length entries
                                    then page_index (entries ! (idx + 1)) - 1
                                    else total_pages - 1)
                   in \<lparr>ChapterRange.title = title entry,
                       start_page = start_index + 1, end_page = end_index + 1\<rparr>)
            [0 ..< length entries])"

text \<open>
  The pages of an inclusive range (none when \<open>end_page < start_page\<close>) and the pages
  covered by a sequence of ranges.
\<close>

definition pages :: "ChapterRange \<Rightarrow> int set" where
  "pages r = {start_page r .. end_page r}"

definition covered :: "ChapterRange list \<Rightarrow> int set" where
  "covered rs = \<Union> (set (map pages rs))"

text \<open>
  The same ranges by recursion over the sorted entries; used only to reason about the
  union of the ranges.
\<close>

fun ranges_from :: "OutlineEntry list \<Rightarrow> int \<Rightarrow> ChapterRange list" where
  "ranges_from [] t = []"
| "ranges_from [e] t =
     [\<lparr>ChapterRange.title = title e, start_page = page_index e + 1, end_page = t\<rparr>]"
| "ranges_from (e # e' # es) t =
     \<lparr>ChapterRange.title = title e, start_page = page_index e + 1, end_page = page_index e'\<rparr>
       # ranges_from (e' # es) t"

section \<open>Strings and the library functions the source calls\<close>

text \<open>
  A Python string is modelled as a \<^typ>\<open>string\<close> whose characters are the code points
  below 256; code points from 256 on are outside the model. The character classes below
  are those of the Python library on this range: \<^verbatim>\<open>str.isspace\<close> (used by
  \<^verbatim>\<open>str.strip\<close> and by \<^verbatim>\<open>\s\<close> in a pattern), the white space that
  \<^verbatim>\<open>int\<close> skips at both ends of its argument, the word characters of
  \<^verbatim>\<open>\w\<close> that decide \<^verbatim>\<open>\b\<close>, and \<^verbatim>\<open>str.lower\<close>.
\<close>

definition code_point :: "char \<Rightarrow> nat" where
  "code_point c = of_char c"

definition py_isspace :: "char \<Rightarrow> bool" where
  "py_isspace c = (let n = code_point c in
     (9 \<le> n \<and> n \<le> 13) \<or> (28 \<le> n \<and> n \<le> 32) \<or> n = 133 \<or> n = 160)"

definition int_space :: "char \<Rightarrow> bool" where
  "int_space c = (let n = code_point c in
     (9 \<le> n \<and> n \<le> 13) \<or> n = 32 \<or> n = 133 \<or> n = 160)"

definition is_digit :: "char \<Rightarrow> bool" where
  "is_digit c = (let n = code_point c in 48 \<le> n \<and> n \<le> 57)"

definition is_ascii_letter :: "char \<Rightarrow> bool" where
  "is_ascii_letter c = (let n = code_point c in (65 \<le> n \<and> n \<le> 90) \<or> (97 \<le> n \<and> n \<le> 122))"

definition is_word_char :: "char \<Rightarrow> bool" where
  "is_word_char c = (let n = code_point c in
     is_digit c \<or> is_ascii_letter c \<or> n = 95
     \<or> n = 170 \<or> n = 178 \<or> n = 179 \<or> n = 181 \<or> n = 185 \<or> n = 186
     \<or> (188 \<le> n \<and> n \<le> 190) \<or> (192 \<le> n \<and> n \<le> 214)
     \<or> (216 \<le> n \<and> n \<le> 246) \<or> 248 \<le> n)"

definition py_lower_char :: "char \<Rightarrow> char" where
  "py_lower_char c = (let n = code_point c in
     if (65 \<le> n \<and> n \<le> 90) \<or> (192 \<le> n \<and> n \<le> 222 \<and> n \<noteq> 215)
     then char_of (n + 32) else c)"

definition py_lower :: "string \<Rightarrow> string" where
  "py_lower s = map py_lower_char s"

text \<open>\<^verbatim>\<open>s.strip()\<close> with the given class of characters removed at both ends.\<close>

definition strip_chars :: "(char \<Rightarrow> bool) \<Rightarrow> string \<Rightarrow> string" where
  "strip_chars ws s = rev (dropWhile ws (rev (dropWhile ws s)))"


text \<open>\<^verbatim>\<open>s.split(sep)\<close> for a separator of one character: never an empty list.\<close>

fun py_split :: "char \<Rightarrow> string \<Rightarrow> string list" where
  "py_split sep [] = [[]]"
| "py_split sep (c # cs) =
     (if c = sep then [] # py_split sep cs
      else (case py_split sep cs of
              [] \<Rightarrow> [[c]]
            | t # ts \<Rightarrow> (c # t) # ts))"

text \<open>\<^verbatim>\<open>s.split(sep, 1)\<close> when \<open>sep\<close> occurs in \<open>s\<close>: the parts around its first occurrence.\<close>

definition py_split_first :: "char \<Rightarrow> string \<Rightarrow> string \<times> string" where
  "py_split_first sep s = (takeWhile (\<lambda>c. c \<noteq> sep) s, drop 1 (dropWhile (\<lambda>c. c \<noteq> sep) s))"

text \<open>
  \<^verbatim>\<open>int(s)\<close> on a string: white space is skipped at both ends, one sign may lead,
  and the rest must be decimal digits, where single underscores may stand between two
  digits. \<open>None\<close> is the \<^verbatim>\<open>ValueError\<close> of the library. The interpreter's
  configurable bound on the number of digits of such a string is left out: the
  conversion is the unbounded one.
\<close>

fun digit_groups_ok :: "string \<Rightarrow> bool \<Rightarrow> bool" where
  "digit_groups_ok [] after_underscore = (\<not> after_underscore)"
| "digit_groups_ok (c # cs) after_underscore =
     (if is_digit c then digit_groups_ok cs False
      else if c = CHR ''_'' \<and> \<not> after_underscore then digit_groups_ok cs True
      else False)"

definition digits_ok :: "string \<Rightarrow> bool" where
  "digits_ok b = (case b of [] \<Rightarrow> False | c # _ \<Rightarrow> is_digit c \<and> digit_groups_ok b False)"

definition digits_value :: "string \<Rightarrow> int" where
  "digits_value ds = foldl (\<lambda>v c. v * 10 + (int (code_point c) - 48)) 0 ds"

definition py_int :: "string \<Rightarrow> int option" where
  "py_int s =
     (let t = strip_chars int_space s;
          (negative, body) =
             (case t of
                [] \<Rightarrow> (False, t)
              | c # r \<Rightarrow> if c = CHR ''-'' then (True, r)
                         else if c = CHR ''+'' then (False, r)
                         else (False, t))
      in if digits_ok body
         then let v = digits_value (filter (\<lambda>c. c \<noteq> CHR ''_'') body)
              in Some (if negative then - v else v)
         else None)"

text \<open>The exceptions of the model: the \<^verbatim>\<open>ValueError\<close> with its message, and any
  other subclass of \<^verbatim>\<open>Exception\<close>.\<close>

datatype py_exception = ValueError string | OtherException string

section \<open>Numeral classifier: \<^verbatim>\<open>roman_to_int\<close> and \<^verbatim>\<open>is_chapter_title\<close>\<close>

text \<open>The dictionaries of the source, as association lists.\<close>

definition NUMBER_WORDS :: "(string \<times> int) list" where
  "NUMBER_WORDS =
     [(''zero'', 0), (''one'', 1), (''two'', 2), (''three'', 3), (''four'', 4), (''five'', 5),
      (''six'', 6), (''seven'', 7), (''eight'', 8), (''nine'', 9), (''ten'', 10),
      (''eleven'', 11), (''twelve'', 12), (''thirteen'', 13), (''fourteen'', 14),
      (''fifteen'', 15), (''sixteen'', 16), (''seventeen'', 17), (''eighteen'', 18),
      (''nineteen'', 19), (''twenty'', 20)]"

definition roman_map :: "(char \<times> int) list" where
  "roman_map = [(CHR ''i'', 1), (CHR ''v'', 5), (CHR ''x'', 10), (CHR ''l'', 50),
                (CHR ''c'', 100), (CHR ''d'', 500), (CHR ''m'', 1000)]"

text \<open>
  The loop of \<^verbatim>\<open>roman_to_int\<close> over the reversed, lower-cased string, with the
  variables \<open>total\<close> (here \<open>total'\<close>) and \<open>prev\<close>. A \<^verbatim>\<open>KeyError\<close> of \<^verbatim>\<open>roman_map[char]\<close> is
  caught by the function, which then returns \<^verbatim>\<open>None\<close>. \<open>prev\<close> is assigned in the
  \<^verbatim>\<open>else\<close> branch only.
\<close>

fun roman_loop :: "string \<Rightarrow> int \<Rightarrow> int \<Rightarrow> int option" where
  "roman_loop [] total' prev = Some total'"
| "roman_loop (char # rest) total' prev =
     (case map_of roman_map char of
        None \<Rightarrow> None
      | Some current \<Rightarrow>
          if current < prev then roman_loop rest (total' - current) prev
          else roman_loop rest (total' + current) current)"

definition roman_to_int :: "string \<Rightarrow> int option" where
  "roman_to_int value = roman_loop (rev (py_lower value)) 0 0"

text \<open>
  The three patterns, matched at the start of the title under \<^verbatim>\<open>re.IGNORECASE\<close>:
  \<^verbatim>\<open>^\s*(?:chapter|chap\.?)[\s.-]*0*([0-9]+)\b\<close>,
  \<^verbatim>\<open>^\s*(?:chapter|chap\.?)[\s.-]*([ivxlcdm]+)\b\<close> and
  \<^verbatim>\<open>^\s*(?:chapter|chap\.?)[\s.-]*([A-Za-z]+)\b\<close>.
  They differ in the class of the captured group only. A match, found by backtracking,
  is determined as follows. \<^verbatim>\<open>\s*\<close> takes all leading white space, since the next
  character must be a \<open>c\<close>. The alternative \<^verbatim>\<open>chapter\<close> is tried first and
  \<^verbatim>\<open>chap\.?\<close> only when the rest of the pattern fails after \<^verbatim>\<open>chapter\<close>. The
  optional dot is itself one of the separators \<^verbatim>\<open>[\s.-]\<close>, and no separator
  belongs to a group class, so the group starts at the first character after the run of
  separators. The group is the longest run of its class there: \<^verbatim>\<open>\b\<close> asks for the
  end of the title or a character outside \<^verbatim>\<open>\w\<close> after it, which fails inside a
  run. In the digit pattern \<^verbatim>\<open>0*\<close> takes the leading zeros of the run and leaves at
  least one digit to the group.
\<close>

definition is_separator :: "char \<Rightarrow> bool" where
  "is_separator c = (py_isspace c \<or> c = CHR ''.'' \<or> c = CHR ''-'')"

definition is_roman_symbol :: "char \<Rightarrow> bool" where
  "is_roman_symbol c = (is_ascii_letter c \<and> py_lower_char c \<in> set ''ivxlcdm'')"

definition prefix_ignorecase :: "string \<Rightarrow> string \<Rightarrow> bool" where
  "prefix_ignorecase p s = (length p \<le> length s \<and> py_lower (take (length p) s) = p)"

definition match_group :: "(char \<Rightarrow> bool) \<Rightarrow> string \<Rightarrow> string option" where
  "match_group cls r =
     (let r' = dropWhile is_separator r;
          g = takeWhile cls r';
          rest = dropWhile cls r'
      in if g \<noteq> [] \<and> (case rest of [] \<Rightarrow> True | c # _ \<Rightarrow> \<not> is_word_char c)
         then Some g else None)"

definition chapter_re_match :: "(char \<Rightarrow> bool) \<Rightarrow> string \<Rightarrow> string option" where
  "chapter_re_match cls title' =
     (let s = dropWhile py_isspace title' in
      case (if prefix_ignorecase ''chapter'' s then match_group cls (drop 7 s) else None) of
        Some g \<Rightarrow> Some g
      | None \<Rightarrow> if prefix_ignorecase ''chap'' s then match_group cls (drop 4 s) else None)"

definition CHAPTER_DIGIT_RE :: "string \<Rightarrow> string option" where
  "CHAPTER_DIGIT_RE title' =
     map_option (\<lambda>run. let g = dropWhile (\<lambda>c. c = CHR ''0'') run in if g = [] then ''0'' else g)
       (chapter_re_match is_digit title')"

definition CHAPTER_ROMAN_RE :: "string \<Rightarrow> string option" where
  "CHAPTER_ROMAN_RE title' = chapter_re_match is_roman_symbol title'"

definition CHAPTER_WORD_RE :: "string \<Rightarrow> string option" where
  "CHAPTER_WORD_RE title' = chapter_re_match is_ascii_letter title'"

text \<open>
  The three rules of \<^verbatim>\<open>is_chapter_title\<close>. In the second,
  \<^verbatim>\<open>if converted:\<close> tests the truth value of the decoded number: \<^verbatim>\<open>None\<close> and
  \<open>0\<close> are false, every other integer is true.
\<close>

definition digit_rule :: "string \<Rightarrow> bool" where
  "digit_rule title' = (CHAPTER_DIGIT_RE title' \<noteq> None)"

definition roman_rule :: "string \<Rightarrow> bool" where
  "roman_rule title' =
     (case CHAPTER_ROMAN_RE title' of
        None \<Rightarrow> False
      | Some group1 \<Rightarrow>
          (case roman_to_int group1 of
             None \<Rightarrow> False
           | Some converted \<Rightarrow> converted \<noteq> 0))"

definition word_rule :: "string \<Rightarrow> bool" where
  "word_rule title' =
     (case CHAPTER_WORD_RE title' of
        None \<Rightarrow> False
      | Some group1 \<Rightarrow> py_lower group1 \<in> set (map fst NUMBER_WORDS))"

definition is_chapter_title :: "string \<Rightarrow> bool" where
  "is_chapter_title title' =
     (if digit_rule title' then True
      else if roman_rule title' then True
      else if word_rule title' then True
      else False)"




section \<open>Outline walker: \<^verbatim>\<open>_iter_outline_items\<close> and \<^verbatim>\<open>collect_outline_entries\<close>\<close>

text \<open>
  The outline is a graph of Python objects, so the model has a heap: a list of objects,
  an object's identity (\<^verbatim>\<open>id(item)\<close>) being its index. An object is either a
  \<^verbatim>\<open>list\<close>, holding references, or any other object, of which the walker reads two
  attributes: \<^verbatim>\<open>title\<close> (\<open>None\<close> when \<^verbatim>\<open>getattr\<close> finds none) and
  \<^verbatim>\<open>children\<close>. The latter is absent or \<^verbatim>\<open>None\<close>, a collection of
  references, a callable that returns such a collection, or a callable that raises
  \<^verbatim>\<open>TypeError\<close>. A reference beyond the heap stands for an object with neither
  attribute. The heap does not change during a walk, and all its objects stay alive, so
  no identity is reused.
\<close>

datatype children_attr =
    NoChildren
  | Collection "nat list"
  | Callable "nat list"
  | CallableTypeError

datatype py_object =
    PyList "nat list"
  | Item "string option" children_attr

definition lookup :: "py_object list \<Rightarrow> nat \<Rightarrow> py_object" where
  "lookup heap r = (if r < length heap then heap ! r else Item None NoChildren)"

text \<open>
  The children the walker descends into, if any: \<^verbatim>\<open>if not children: continue\<close>
  skips an absent, \<^verbatim>\<open>None\<close> or empty attribute, the \<^verbatim>\<open>TypeError\<close> of a call is
  caught, and \<^verbatim>\<open>if child_items:\<close> skips an empty result.
\<close>

definition child_items :: "children_attr \<Rightarrow> nat list option" where
  "child_items children =
     (case children of
        NoChildren \<Rightarrow> None
      | Collection xs \<Rightarrow> if xs = [] then None else Some xs
      | Callable xs \<Rightarrow> if xs = [] then None else Some xs
      | CallableTypeError \<Rightarrow> None)"

text \<open>
  The generator, with the set \<open>seen\<close> that all its recursive calls share passed in and
  returned. The result is the sequence of its yields \<open>(depth, item)\<close> together with the
  final \<open>seen\<close>; \<open>None\<close> means that the recursion does not end. A list is entered at the
  same depth and is never added to \<open>seen\<close>.
\<close>

partial_function (option) iter_outline_items ::
  "py_object list \<Rightarrow> nat list \<Rightarrow> int \<Rightarrow> nat set \<Rightarrow> ((int \<times> nat) list \<times> nat set) option" where
  "iter_outline_items heap outline depth' seen =
     (case outline of
        [] \<Rightarrow> Some ([], seen)
      | item # rest \<Rightarrow>
          (case lookup heap item of
             PyList xs \<Rightarrow>
               Option.bind (iter_outline_items heap xs depth' seen) (\<lambda>(ys, seen1).
               Option.bind (iter_outline_items heap rest depth' seen1) (\<lambda>(zs, seen2).
               Some (ys @ zs, seen2)))
           | Item _ children \<Rightarrow>
               if item \<in> seen then iter_outline_items heap rest depth' seen
               else
                 (case child_items children of
                    None \<Rightarrow>
                      Option.bind (iter_outline_items heap rest depth' (insert item seen))
                        (\<lambda>(zs, seen2). Some ((depth', item) # zs, seen2))
                  | Some cs \<Rightarrow>
                      Option.bind (iter_outline_items heap cs (depth' + 1) (insert item seen))
                        (\<lambda>(ys, seen1).
                      Option.bind (iter_outline_items heap rest depth' seen1) (\<lambda>(zs, seen2).
                      Some ((depth', item) # ys @ zs, seen2))))))"

declare iter_outline_items.simps [code]

text \<open>
  The reader: its attributes \<^verbatim>\<open>outline\<close> and \<^verbatim>\<open>outlines\<close> (\<open>None\<close> when
  absent), the heap of objects they refer to, the method \<^verbatim>\<open>get_destination_page_number\<close>,
  which returns a page index or raises, and the number of pages.
\<close>

record reader =
  outline :: "nat list option"
  outlines :: "nat list option"
  objects :: "py_object list"
  get_destination_page_number :: "nat \<Rightarrow> py_exception + int"
  num_pages :: int






text \<open>
  A ranking of the lists of a heap: every list that is an element of a list has a
  smaller rank than the list that holds it. A heap has such a ranking exactly when no
  list is reachable from itself through lists alone.
\<close>

definition is_list :: "py_object \<Rightarrow> bool" where
  "is_list obj = (case obj of PyList _ \<Rightarrow> True | Item _ _ \<Rightarrow> False)"






text \<open>
  The objects a walk is meant to reach. \<open>flat hp xs i\<close>: the object \<open>i\<close> is not a list
  and occurs in \<open>xs\<close>, directly or inside nested lists. \<open>reachable hp xs n\<close>: \<open>n\<close> is
  such an object of the outline \<open>xs\<close>, or of the children the walker descends into from a
  reachable object.
\<close>

inductive flat :: "py_object list \<Rightarrow> nat list \<Rightarrow> nat \<Rightarrow> bool" for hp where
  flat_item: "i \<in> set xs \<Longrightarrow> \<not> is_list (lookup hp i) \<Longrightarrow> flat hp xs i"
| flat_list: "l \<in> set xs \<Longrightarrow> lookup hp l = PyList content \<Longrightarrow> flat hp content j \<Longrightarrow> flat hp xs j"


code_pred flat .



section \<open>Chapter selector: \<^verbatim>\<open>pick_chapter_entries\<close>\<close>

text \<open>\<^verbatim>\<open>min\<close> over the depths is taken of a non-empty list only.\<close>

definition pick_chapter_entries :: "OutlineEntry list \<Rightarrow> OutlineEntry list" where
  "pick_chapter_entries entries =
     (let chapters = filter (\<lambda>entry. is_chapter_title (title entry)) entries in
      if chapters \<noteq> [] then chapters
      else if entries = [] then []
      else let min_depth = Min (set (map depth entries))
           in filter (\<lambda>entry. depth entry = min_depth) entries)"

section \<open>Selection parser: \<^verbatim>\<open>parse_selection\<close>\<close>

text \<open>
  The \<^verbatim>\<open>try\<close> block for one token: both numbers, or \<open>None\<close> when an
  \<^verbatim>\<open>int\<close> raises \<^verbatim>\<open>ValueError\<close>.
\<close>

definition parse_token :: "string \<Rightarrow> (int \<times> int) option" where
  "parse_token token =
     (if CHR ''-'' \<in> set token
      then (case py_split_first CHR ''-'' token of (start_str, end_str) \<Rightarrow>
              (case py_int start_str of
                 None \<Rightarrow> None
               | Some start \<Rightarrow>
                   (case py_int end_str of
                      None \<Rightarrow> None
                    | Some end' \<Rightarrow> Some (start, end'))))
      else (case py_int token of
              None \<Rightarrow> None
            | Some n \<Rightarrow> Some (n, n)))"

text \<open>The loop over the tokens, with the list \<open>ranges\<close> built so far, and the final test.\<close>

fun parse_loop :: "string list \<Rightarrow> (int \<times> int) list \<Rightarrow> py_exception + (int \<times> int) list" where
  "parse_loop [] ranges =
     (if ranges = [] then Inl (ValueError ''No chapter numbers detected.'') else Inr ranges)"
| "parse_loop (token # rest) ranges =
     (if token = [] then parse_loop rest ranges
      else (case parse_token token of
              None \<Rightarrow> Inl (ValueError ''Use chapter numbers like 1 or 1-3.'')
            | Some (start, end') \<Rightarrow>
                if start < 1 \<or> end' < 1 then Inl (ValueError ''Chapter numbers must be positive.'')
                else if start > end' then parse_loop rest (ranges @ [(end', start)])
                else parse_loop rest (ranges @ [(start, end')])))"

definition parse_selection :: "string \<Rightarrow> py_exception + (int \<times> int) list" where
  "parse_selection selection =
     parse_loop (py_split CHR '','' (filter (\<lambda>c. c \<noteq> CHR '' '') selection)) []"

text \<open>The tokens that the loop does not skip.\<close>

definition tokens :: "string \<Rightarrow> string list" where
  "tokens selection =
     filter (\<lambda>token. token \<noteq> []) (py_split CHR '','' (filter (\<lambda>c. c \<noteq> CHR '' '') selection))"

text \<open>The pair a token stands for: its two numbers, the smaller one first.\<close>

definition token_pair :: "string \<Rightarrow> (int \<times> int) option" where
  "token_pair token = map_option (\<lambda>(a, b). (min a b, max a b)) (parse_token token)"

text \<open>A token that the loop accepts: both numbers parse and are at least 1.\<close>

definition token_ok :: "string \<Rightarrow> bool" where
  "token_ok token = (case parse_token token of None \<Rightarrow> False | Some (a, b) \<Rightarrow> 1 \<le> a \<and> 1 \<le> b)"

text \<open>The error that a token raises, if it raises one.\<close>

definition token_error :: "string \<Rightarrow> py_exception option" where
  "token_error token =
     (case parse_token token of
        None \<Rightarrow> Some (ValueError ''Use chapter numbers like 1 or 1-3.'')
      | Some (a, b) \<Rightarrow>
          if a < 1 \<or> b < 1 then Some (ValueError ''Chapter numbers must be positive.'') else None)"

section \<open>Properties of the range builder\<close>

lemma length_build [simp]: "length (build_chapter_ranges es t) = length es"
  by (simp add: build_chapter_ranges_def Let_def)

lemma build_nonempty: "es \<noteq> [] \<Longrightarrow> build_chapter_ranges es t \<noteq> []"
  using length_build [of es t] by (metis length_0_conv)

lemma last_build:
  "es \<noteq> [] \<Longrightarrow> last (build_chapter_ranges es t) = build_chapter_ranges es t ! (length es - 1)"
  using last_conv_nth [OF build_nonempty, of es t] by simp

lemma hd_build:
  "es \<noteq> [] \<Longrightarrow> hd (build_chapter_ranges es t) = build_chapter_ranges es t ! 0"
  using hd_conv_nth [OF build_nonempty, of es t] by simp

lemma nth_build:
  assumes "i < length es"
  shows "build_chapter_ranges es t ! i =
     \<lparr>ChapterRange.title = title (sort_key page_index es ! i),
      start_page = page_index (sort_key page_index es ! i) + 1,
      end_page = (if Suc i < length es then page_index (sort_key page_index es ! Suc i) else t)\<rparr>"
  using assms by (auto simp: build_chapter_ranges_def Let_def)

lemma sorted_positions:
  assumes "i \<le> j" "j < length es"
  shows "page_index (sort_key page_index es ! i) \<le> page_index (sort_key page_index es ! j)"
proof -
  have "sorted (map page_index (sort_key page_index es))" by (rule sorted_sort_key)
  then have "map page_index (sort_key page_index es) ! i \<le> map page_index (sort_key page_index es) ! j"
    using assms by (intro sorted_nth_mono) simp_all
  then show ?thesis using assms by simp
qed


lemma length_ranges_from [simp]: "length (ranges_from s t) = length s"
  by (induction s t rule: ranges_from.induct) simp_all

lemma nth_ranges_from:
  "i < length s \<Longrightarrow> ranges_from s t ! i =
     \<lparr>ChapterRange.title = title (s ! i), start_page = page_index (s ! i) + 1,
      end_page = (if Suc i < length s then page_index (s ! Suc i) else t)\<rparr>"
proof (induction s t arbitrary: i rule: ranges_from.induct)
  case (1 t)
  then show ?case by simp
next
  case (2 e t)
  then show ?case by simp
next
  case (3 e e' es t)
  then show ?case by (cases i) simp_all
qed

lemma build_ranges_from:
  "build_chapter_ranges es t = ranges_from (sort_key page_index es) t"
proof (rule nth_equalityI)
  show "length (build_chapter_ranges es t) = length (ranges_from (sort_key page_index es) t)"
    by simp
next
  fix i assume "i < length (build_chapter_ranges es t)"
  then have "i < length es" by simp
  then show "build_chapter_ranges es t ! i = ranges_from (sort_key page_index es) t ! i"
    by (simp add: nth_build nth_ranges_from)
qed

lemma covered_ranges_from:
  "s \<noteq> [] \<Longrightarrow> sorted (map page_index s) \<Longrightarrow>
     covered (ranges_from s t) = {page_index (hd s) + 1 .. max t (page_index (last s))}"
proof (induction s t rule: ranges_from.induct)
  case (1 t)
  then show ?case by simp
next
  case (2 e t)
  then show ?case by (auto simp: covered_def pages_def)
next
  case (3 e e' es t)
  then have ih: "covered (ranges_from (e' # es) t) = {page_index e' + 1 .. max t (page_index (last (e' # es)))}"
    by simp
  have le1: "page_index e \<le> page_index e'" using 3 by simp
  have "last (e' # es) \<in> set (e' # es)" by (rule last_in_set) simp
  then have le2: "page_index e' \<le> page_index (last (e' # es))"
    using 3(3) by auto
  have "covered (ranges_from (e # e' # es) t) =
          {page_index e + 1 .. page_index e'} \<union> covered (ranges_from (e' # es) t)"
    by (simp add: covered_def pages_def)
  also have "\<dots> = {page_index e + 1 .. max t (page_index (last (e' # es)))}"
    unfolding ih using le1 le2 by auto
  finally show ?case by simp
qed

lemma hd_sorted_Min:
  "s \<noteq> [] \<Longrightarrow> sorted (map f s) \<Longrightarrow> f (hd s) = Min (f ` set s)"
  by (cases s) (auto intro!: Min_eqI [symmetric])

lemma last_sorted_Max:
  "s \<noteq> [] \<Longrightarrow> sorted (map f s) \<Longrightarrow> f (last s) = Max (f ` set s)"
proof -
  assume a: "s \<noteq> []" "sorted (map f s)"
  have "\<forall>x\<in>set s. f x \<le> f (last s)"
  proof
    fix x assume "x \<in> set s"
    then obtain i where i: "i < length s" "s ! i = x" by (auto simp: in_set_conv_nth)
    have "map f s ! i \<le> map f s ! (length s - 1)"
      using a i by (intro sorted_nth_mono) auto
    then show "f x \<le> f (last s)" using a i by (simp add: last_conv_nth)
  qed
  then show ?thesis using a by (auto intro!: Max_eqI [symmetric])
qed


subsection \<open>Boundary arithmetic (claim C1)\<close>

text \<open>
  Claim C1 as written gives \<open>end_page = position(i+1) - 1\<close> for an entry with a
  successor. On the spec's own example (positions 0, 50, 120 and 200 pages) the first
  range ends at page 50, which is \<open>position(1)\<close>, not \<open>position(1) - 1 = 49\<close>: the
  source subtracts one for the 0-based end index and adds it back for the 1-based page.
\<close>

theorem build_end_page_counterexample:
  "end_page (build_chapter_ranges
       [\<lparr>title = ''A'', page_index = 0, depth = 0\<rparr>,
        \<lparr>title = ''B'', page_index = 50, depth = 0\<rparr>,
        \<lparr>title = ''C'', page_index = 120, depth = 0\<rparr>] 200 ! 0) = 50
   \<and> page_index (sort_key page_index
       [\<lparr>title = ''A'', page_index = 0, depth = 0\<rparr>,
        \<lparr>title = ''B'', page_index = 50, depth = 0\<rparr>,
        \<lparr>title = ''C'', page_index = 120, depth = 0\<rparr>] ! (0 + 1)) - 1 = 49
   \<and> end_page (build_chapter_ranges
       [\<lparr>title = ''A'', page_index = 0, depth = 0\<rparr>,
        \<lparr>title = ''B'', page_index = 50, depth = 0\<rparr>,
        \<lparr>title = ''C'', page_index = 120, depth = 0\<rparr>] 200 ! 0)
     \<noteq> page_index (sort_key page_index
       [\<lparr>title = ''A'', page_index = 0, depth = 0\<rparr>,
        \<lparr>title = ''B'', page_index = 50, depth = 0\<rparr>,
        \<lparr>title = ''C'', page_index = 120, depth = 0\<rparr>] ! (0 + 1)) - 1"
  by (simp add: build_chapter_ranges_def)

text \<open>
  Claim C1, amended: \<^const>\<open>build_chapter_ranges\<close> returns no range for no entry;
  otherwise it sorts the entries by position ascending (a sorted permutation of the
  input) and emits one range per sorted entry, the range at 0-based index \<open>i\<close> having
  \<open>start_page = position(i) + 1\<close> and \<open>end_page = position(i+1)\<close> when a next entry
  exists, else \<open>end_page = total_pages\<close>.
\<close>

theorem build_boundaries:
  "build_chapter_ranges [] total_pages = []
   \<and> length (build_chapter_ranges entries total_pages) = length entries
   \<and> sorted (map page_index (sort_key page_index entries))
   \<and> mset (sort_key page_index entries) = mset entries
   \<and> (\<forall>i < length entries.
         start_page (build_chapter_ranges entries total_pages ! i)
           = page_index (sort_key page_index entries ! i) + 1
       \<and> end_page (build_chapter_ranges entries total_pages ! i)
           = (if i + 1 < length entries
              then page_index (sort_key page_index entries ! (i + 1))
              else total_pages))"
proof -
  have "build_chapter_ranges [] total_pages = []"
    by (simp add: build_chapter_ranges_def)
  moreover have "sorted (map page_index (sort_key page_index entries))"
    by (rule sorted_sort_key)
  moreover have "mset (sort_key page_index entries) = mset entries"
    by (rule mset_sort)
  ultimately show ?thesis
    by (simp add: nth_build)
qed

theorem build_boundaries_witness:
  "(1::nat) < length [\<lparr>title = ''A'', page_index = 0, depth = 0\<rparr>,
        \<lparr>title = ''C'', page_index = 120, depth = 0\<rparr>,
        \<lparr>title = ''B'', page_index = 50, depth = 0\<rparr>]
   \<and> start_page (build_chapter_ranges
       [\<lparr>title = ''A'', page_index = 0, depth = 0\<rparr>,
        \<lparr>title = ''C'', page_index = 120, depth = 0\<rparr>,
        \<lparr>title = ''B'', page_index = 50, depth = 0\<rparr>] 200 ! 1) = 51
   \<and> end_page (build_chapter_ranges
       [\<lparr>title = ''A'', page_index = 0, depth = 0\<rparr>,
        \<lparr>title = ''C'', page_index = 120, depth = 0\<rparr>,
        \<lparr>title = ''B'', page_index = 50, depth = 0\<rparr>] 200 ! 1) = 120"
  using build_boundaries [of 200 "[\<lparr>title = ''A'', page_index = 0, depth = 0\<rparr>,
        \<lparr>title = ''C'', page_index = 120, depth = 0\<rparr>,
        \<lparr>title = ''B'', page_index = 50, depth = 0\<rparr>]"]
  by simp

text \<open>The example of the spec: positions 0, 50, 120 in a document of 200 pages.\<close>

theorem build_example_ranges:
  "build_chapter_ranges
       [\<lparr>title = ''A'', page_index = 0, depth = 0\<rparr>,
        \<lparr>title = ''B'', page_index = 50, depth = 0\<rparr>,
        \<lparr>title = ''C'', page_index = 120, depth = 0\<rparr>] 200
   = [\<lparr>ChapterRange.title = ''A'', start_page = 1, end_page = 50\<rparr>,
      \<lparr>ChapterRange.title = ''B'', start_page = 51, end_page = 120\<rparr>,
      \<lparr>ChapterRange.title = ''C'', start_page = 121, end_page = 200\<rparr>]"
  by (simp add: build_chapter_ranges_def upt_rec)

subsection \<open>Order, disjointness and cover (claim C2)\<close>

text \<open>
  Claim C2 as written says the ranges cover the whole of \<open>[1, total_pages]\<close> for every
  entry list. A single entry at position 5 in a document of 10 pages gives the one range
  6-10, so page 1 is in no range; and no entry gives no range at all.
\<close>

theorem build_cover_counterexample:
  "(1::int) \<in> {1 .. 10}
   \<and> 1 \<notin> covered (build_chapter_ranges [\<lparr>title = ''A'', page_index = 5, depth = 0\<rparr>] 10)
   \<and> covered (build_chapter_ranges [] 10) = {}"
  by (simp add: build_chapter_ranges_def covered_def pages_def)

text \<open>
  Claim C2, amended: for every non-empty entry list the ranges are ordered by
  \<open>start_page\<close> ascending, are pairwise disjoint as sets of pages, end with
  \<open>end_page = total_pages\<close>, and their union is one interval without gaps, which starts
  at the smallest entry position plus one (not at page 1) and reaches \<open>total_pages\<close>
  (or the largest entry position, should that lie beyond \<open>total_pages\<close>).
\<close>

theorem build_ordered_disjoint_cover:
  assumes "entries \<noteq> []"
  shows "sorted (map start_page (build_chapter_ranges entries total_pages))
   \<and> (\<forall>j < length entries. \<forall>i < j.
         pages (build_chapter_ranges entries total_pages ! i)
           \<inter> pages (build_chapter_ranges entries total_pages ! j) = {})
   \<and> covered (build_chapter_ranges entries total_pages)
        = {Min (page_index ` set entries) + 1 ..
             max total_pages (Max (page_index ` set entries))}
   \<and> end_page (last (build_chapter_ranges entries total_pages)) = total_pages"
proof -
  let ?s = "sort_key page_index entries"
  let ?rs = "build_chapter_ranges entries total_pages"
  have s_ne: "?s \<noteq> []" using assms by (metis length_sort length_0_conv)
  have s_sorted: "sorted (map page_index ?s)" by (rule sorted_sort_key)
  have ordered: "sorted (map start_page ?rs)"
  proof (subst sorted_iff_nth_mono, intro allI impI)
    fix i j assume "i \<le> j" "j < length (map start_page ?rs)"
    then have ij: "i \<le> j" "j < length entries" by simp_all
    then show "map start_page ?rs ! i \<le> map start_page ?rs ! j"
      using sorted_positions [OF ij] by (simp add: nth_build)
  qed
  have disjoint: "\<forall>j < length entries. \<forall>i < j. pages (?rs ! i) \<inter> pages (?rs ! j) = {}"
  proof (intro allI impI)
    fix j i assume j: "j < length entries" and i: "i < j"
    have "page_index (?s ! Suc i) \<le> page_index (?s ! j)"
      using i j by (intro sorted_positions) simp_all
    then show "pages (?rs ! i) \<inter> pages (?rs ! j) = {}"
      using i j by (auto simp: nth_build pages_def)
  qed
  have "covered ?rs = {page_index (hd ?s) + 1 .. max total_pages (page_index (last ?s))}"
    unfolding build_ranges_from by (rule covered_ranges_from [OF s_ne s_sorted])
  moreover have "page_index (hd ?s) = Min (page_index ` set entries)"
    using hd_sorted_Min [OF s_ne s_sorted] by simp
  moreover have "page_index (last ?s) = Max (page_index ` set entries)"
    using last_sorted_Max [OF s_ne s_sorted] by simp
  ultimately have cover: "covered ?rs = {Min (page_index ` set entries) + 1 ..
             max total_pages (Max (page_index ` set entries))}"
    by simp
  have "last ?rs = ?rs ! (length entries - 1)"
    using assms by (rule last_build)
  then have final: "end_page (last ?rs) = total_pages"
    using assms by (simp add: nth_build)
  from ordered disjoint cover final show ?thesis by blast
qed

theorem build_ordered_disjoint_cover_witness:
  "[\<lparr>title = ''A'', page_index = 5, depth = 0\<rparr>, \<lparr>title = ''B'', page_index = 2, depth = 0\<rparr>] \<noteq> []
   \<and> covered (build_chapter_ranges
        [\<lparr>title = ''A'', page_index = 5, depth = 0\<rparr>, \<lparr>title = ''B'', page_index = 2, depth = 0\<rparr>] 10)
      = {3 .. 10}
   \<and> pages (build_chapter_ranges
        [\<lparr>title = ''A'', page_index = 5, depth = 0\<rparr>, \<lparr>title = ''B'', page_index = 2, depth = 0\<rparr>] 10 ! 0)
      \<inter> pages (build_chapter_ranges
        [\<lparr>title = ''A'', page_index = 5, depth = 0\<rparr>, \<lparr>title = ''B'', page_index = 2, depth = 0\<rparr>] 10 ! 1)
      = {}"
  using build_ordered_disjoint_cover [of
     "[\<lparr>title = ''A'', page_index = 5, depth = 0\<rparr>, \<lparr>title = ''B'', page_index = 2, depth = 0\<rparr>]" 10]
  by simp

subsection \<open>Duplicate positions (claim C8)\<close>

text \<open>
  Claim C8: when the sorted entries at indices \<open>i\<close> and \<open>i + 1\<close> share a position, the
  range emitted at index \<open>i\<close> is the one the general rule computes, with
  \<open>end_page < start_page\<close>; it is neither clamped nor dropped (the output has one range
  per entry).
\<close>

theorem build_duplicate_position:
  assumes "Suc i < length entries"
    and "page_index (sort_key page_index entries ! Suc i) = page_index (sort_key page_index entries ! i)"
  shows "length (build_chapter_ranges entries total_pages) = length entries
   \<and> build_chapter_ranges entries total_pages ! i
       = \<lparr>ChapterRange.title = title (sort_key page_index entries ! i),
          start_page = page_index (sort_key page_index entries ! i) + 1,
          end_page = page_index (sort_key page_index entries ! i)\<rparr>
   \<and> end_page (build_chapter_ranges entries total_pages ! i)
       < start_page (build_chapter_ranges entries total_pages ! i)"
  using assms by (simp add: nth_build)

theorem build_duplicate_position_witness:
  "Suc 0 < length [\<lparr>title = ''A'', page_index = 10, depth = 0\<rparr>, \<lparr>title = ''B'', page_index = 10, depth = 0\<rparr>]
   \<and> build_chapter_ranges
        [\<lparr>title = ''A'', page_index = 10, depth = 0\<rparr>, \<lparr>title = ''B'', page_index = 10, depth = 0\<rparr>] 50 ! 0
      = \<lparr>ChapterRange.title = ''A'', start_page = 11, end_page = 10\<rparr>
   \<and> length (build_chapter_ranges
        [\<lparr>title = ''A'', page_index = 10, depth = 0\<rparr>, \<lparr>title = ''B'', page_index = 10, depth = 0\<rparr>] 50) = 2"
  using build_duplicate_position [of 0
     "[\<lparr>title = ''A'', page_index = 10, depth = 0\<rparr>, \<lparr>title = ''B'', page_index = 10, depth = 0\<rparr>]" 50]
  by simp

subsection \<open>Adjacency (claim C10)\<close>

text \<open>
  Claim C10: for every non-empty entry list each range starts on the page after the end
  of its predecessor, the first range starts at the smallest entry position plus one, and
  the last range ends at \<open>total_pages\<close>.
\<close>

theorem build_adjacent:
  assumes "entries \<noteq> []"
  shows "(\<forall>i. Suc i < length (build_chapter_ranges entries total_pages) \<longrightarrow>
           start_page (build_chapter_ranges entries total_pages ! Suc i)
             = end_page (build_chapter_ranges entries total_pages ! i) + 1)
   \<and> start_page (hd (build_chapter_ranges entries total_pages))
        = Min (page_index ` set entries) + 1
   \<and> end_page (last (build_chapter_ranges entries total_pages)) = total_pages"
proof -
  let ?s = "sort_key page_index entries"
  let ?rs = "build_chapter_ranges entries total_pages"
  have s_ne: "?s \<noteq> []" using assms by (metis length_sort length_0_conv)
  have s_sorted: "sorted (map page_index ?s)" by (rule sorted_sort_key)
  have adj: "\<forall>i. Suc i < length ?rs \<longrightarrow> start_page (?rs ! Suc i) = end_page (?rs ! i) + 1"
    by (simp add: nth_build)
  have "hd ?rs = ?rs ! 0" using assms by (rule hd_build)
  then have "start_page (hd ?rs) = page_index (hd ?s) + 1"
    using assms s_ne by (simp add: nth_build hd_conv_nth)
  then have first: "start_page (hd ?rs) = Min (page_index ` set entries) + 1"
    using hd_sorted_Min [OF s_ne s_sorted] by simp
  have "last ?rs = ?rs ! (length entries - 1)"
    using assms by (rule last_build)
  then have final: "end_page (last ?rs) = total_pages"
    using assms by (simp add: nth_build)
  from adj first final show ?thesis by blast
qed

theorem build_adjacent_witness:
  "[\<lparr>title = ''A'', page_index = 10, depth = 0\<rparr>, \<lparr>title = ''B'', page_index = 10, depth = 0\<rparr>,
    \<lparr>title = ''C'', page_index = 4, depth = 1\<rparr>] \<noteq> []
   \<and> start_page (build_chapter_ranges
        [\<lparr>title = ''A'', page_index = 10, depth = 0\<rparr>, \<lparr>title = ''B'', page_index = 10, depth = 0\<rparr>,
         \<lparr>title = ''C'', page_index = 4, depth = 1\<rparr>] 50 ! Suc (Suc 0))
      = end_page (build_chapter_ranges
        [\<lparr>title = ''A'', page_index = 10, depth = 0\<rparr>, \<lparr>title = ''B'', page_index = 10, depth = 0\<rparr>,
         \<lparr>title = ''C'', page_index = 4, depth = 1\<rparr>] 50 ! Suc 0) + 1
   \<and> start_page (hd (build_chapter_ranges
        [\<lparr>title = ''A'', page_index = 10, depth = 0\<rparr>, \<lparr>title = ''B'', page_index = 10, depth = 0\<rparr>,
         \<lparr>title = ''C'', page_index = 4, depth = 1\<rparr>] 50)) = 5"
  using build_adjacent [of
     "[\<lparr>title = ''A'', page_index = 10, depth = 0\<rparr>, \<lparr>title = ''B'', page_index = 10, depth = 0\<rparr>,
       \<lparr>title = ''C'', page_index = 4, depth = 1\<rparr>]" 50]
  by simp

section \<open>Properties of the outline walker\<close>

subsection \<open>The branches of the generator\<close>






subsection \<open>Termination\<close>















subsection \<open>The walk yields the reachable objects\<close>

lemma flat_Nil [simp]: "\<not> flat hp [] i"
proof
  assume "flat hp [] i"
  then show False by (cases rule: flat.cases) simp_all
qed








subsection \<open>A list that contains itself\<close>



subsection \<open>The collected entries\<close>







subsection \<open>Cycle safety (claim C3)\<close>



text \<open>A heading that is its own child is yielded once, and the walk ends.\<close>

theorem self_child_emitted_once:
  "iter_outline_items [Item (Some ''A'') (Collection [0])] [0] 0 {} = Some ([(0, 0)], {0})"
  by code_simp


subsection \<open>Page lookups that fail (claim C9)\<close>



section \<open>Properties of the numeral classifier\<close>

subsection \<open>The decoder against its specification\<close>











subsection \<open>The captured group\<close>



subsection \<open>The Roman-numeral rule (claim C4)\<close>




text \<open>A decode of zero is no match: \<open>Chapter IIIIIV\<close> is not a chapter title.\<close>

theorem zero_decode_no_match:
  "roman_to_int ''IIIIIV'' = Some 0 \<and> \<not> roman_rule ''Chapter IIIIIV'' \<and> \<not> is_chapter_title ''Chapter IIIIIV''"
proof -
  have 1: "roman_to_int ''IIIIIV'' = Some 0" by code_simp
  have 2: "\<not> roman_rule ''Chapter IIIIIV''" by code_simp
  have 3: "\<not> is_chapter_title ''Chapter IIIIIV''" by code_simp
  from 1 2 3 show ?thesis by blast
qed

section \<open>Properties of the chapter selector\<close>

lemma min_depth_iff:
  assumes "e \<in> set entries"
  shows "depth e = Min (set (map depth entries)) \<longleftrightarrow> (\<forall>e' \<in> set entries. depth e \<le> depth e')"
proof
  assume "depth e = Min (set (map depth entries))"
  then show "\<forall>e' \<in> set entries. depth e \<le> depth e'" by simp
next
  assume "\<forall>e' \<in> set entries. depth e \<le> depth e'"
  then have "Min (set (map depth entries)) = depth e"
    using assms by (intro Min_eqI) auto
  then show "depth e = Min (set (map depth entries))" by simp
qed

lemma min_depth_attained:
  assumes "entries \<noteq> []"
  shows "\<exists>e \<in> set entries. depth e = Min (set (map depth entries))"
proof -
  have "Min (set (map depth entries)) \<in> set (map depth entries)"
    using assms by (intro Min_in) auto
  then show ?thesis by auto
qed

text \<open>
  Claim C5: \<^const>\<open>pick_chapter_entries\<close> returns the entries that the classifier
  accepts, in their order, when there is one; otherwise nothing for no entry; otherwise
  exactly the entries whose depth is the minimum over all entries, that is, those no
  deeper than any other entry, and there is at least one. The result is always a
  subsequence of the input.
\<close>

theorem pick_policy:
  "pick_chapter_entries [] = []
   \<and> (filter (\<lambda>e. is_chapter_title (title e)) entries \<noteq> [] \<longrightarrow>
        pick_chapter_entries entries = filter (\<lambda>e. is_chapter_title (title e)) entries)
   \<and> (filter (\<lambda>e. is_chapter_title (title e)) entries = [] \<and> entries \<noteq> [] \<longrightarrow>
        pick_chapter_entries entries = filter (\<lambda>e. depth e = Min (set (map depth entries))) entries
        \<and> pick_chapter_entries entries = filter (\<lambda>e. \<forall>e' \<in> set entries. depth e \<le> depth e') entries
        \<and> pick_chapter_entries entries \<noteq> [])
   \<and> subseq (pick_chapter_entries entries) entries"
proof -
  have 1: "pick_chapter_entries [] = []" by (simp add: pick_chapter_entries_def)
  have 2: "filter (\<lambda>e. is_chapter_title (title e)) entries \<noteq> [] \<longrightarrow>
        pick_chapter_entries entries = filter (\<lambda>e. is_chapter_title (title e)) entries"
    by (simp add: pick_chapter_entries_def)
  have 3: "pick_chapter_entries entries = filter (\<lambda>e. depth e = Min (set (map depth entries))) entries"
    if "filter (\<lambda>e. is_chapter_title (title e)) entries = [] \<and> entries \<noteq> []"
    using that by (simp add: pick_chapter_entries_def)
  have same: "filter (\<lambda>e. depth e = Min (set (map depth entries))) entries
      = filter (\<lambda>e. \<forall>e' \<in> set entries. depth e \<le> depth e') entries"
  proof (rule filter_cong)
    show "entries = entries" by (rule refl)
  next
    fix x assume "x \<in> set entries"
    then show "(depth x = Min (set (map depth entries))) = (\<forall>e' \<in> set entries. depth x \<le> depth e')"
      by (rule min_depth_iff)
  qed
  have ne: "filter (\<lambda>e. depth e = Min (set (map depth entries))) entries \<noteq> []" if "entries \<noteq> []"
    using min_depth_attained [OF that] by (simp add: filter_empty_conv)
  have 4: "subseq (pick_chapter_entries entries) entries"
    by (simp add: pick_chapter_entries_def Let_def)
  from 1 2 3 same ne 4 show ?thesis by simp
qed

theorem pick_policy_witness:
  "filter (\<lambda>e. is_chapter_title (title e))
      [\<lparr>title = ''Preface'', page_index = 0, depth = 1\<rparr>,
       \<lparr>title = ''Introduction'', page_index = 3, depth = 1\<rparr>,
       \<lparr>title = ''Notes'', page_index = 5, depth = 2\<rparr>] = []
   \<and> pick_chapter_entries
      [\<lparr>title = ''Preface'', page_index = 0, depth = 1\<rparr>,
       \<lparr>title = ''Introduction'', page_index = 3, depth = 1\<rparr>,
       \<lparr>title = ''Notes'', page_index = 5, depth = 2\<rparr>]
     = [\<lparr>title = ''Preface'', page_index = 0, depth = 1\<rparr>,
        \<lparr>title = ''Introduction'', page_index = 3, depth = 1\<rparr>]"
proof -
  have a: "\<not> is_chapter_title ''Preface''" by code_simp
  have b: "\<not> is_chapter_title ''Introduction''" by code_simp
  have c: "\<not> is_chapter_title ''Notes''" by code_simp
  have none: "filter (\<lambda>e. is_chapter_title (title e))
      [\<lparr>title = ''Preface'', page_index = 0, depth = 1\<rparr>,
       \<lparr>title = ''Introduction'', page_index = 3, depth = 1\<rparr>,
       \<lparr>title = ''Notes'', page_index = 5, depth = 2\<rparr>] = []"
    using a b c by simp
  from pick_policy [of "[\<lparr>title = ''Preface'', page_index = 0, depth = 1\<rparr>,
       \<lparr>title = ''Introduction'', page_index = 3, depth = 1\<rparr>,
       \<lparr>title = ''Notes'', page_index = 5, depth = 2\<rparr>]"] none
  show ?thesis by simp
qed

text \<open>Entries that look like chapters are preferred to a shallower entry.\<close>

theorem pick_prefers_chapters:
  "pick_chapter_entries
      [\<lparr>title = ''Part One'', page_index = 0, depth = 0\<rparr>,
       \<lparr>title = ''Chapter 1'', page_index = 3, depth = 1\<rparr>,
       \<lparr>title = ''Chapter II'', page_index = 9, depth = 1\<rparr>]
     = [\<lparr>title = ''Chapter 1'', page_index = 3, depth = 1\<rparr>,
        \<lparr>title = ''Chapter II'', page_index = 9, depth = 1\<rparr>]"
  by code_simp

end
